theory Spec2Isabelle
  imports Complex_Main "HOL-Library.AList"
begin

section \<open>Health-check wait helper (conftest.py, wait\_for\_health)\<close>

text \<open>
  The fixture \<open>wait_for_health\<close> returns the coroutine \<open>_wait(max_attempts, delay_seconds)\<close>.
  It opens one HTTP client whose timeout is the literal \<open>5.0\<close>, then runs
  \<open>for attempt in range(1, max_attempts + 1)\<close>: a GET on \<open>/health\<close>; status 200 logs and
  returns \<open>True\<close>; \<open>httpx.RequestError\<close> (connection errors and timeouts) logs a warning;
  every attempt that did not return sleeps \<open>delay_seconds\<close>. After the loop an error is
  logged and \<open>False\<close> is returned.

  The service is the environment: \<open>probe attempt\<close> is what the GET of that attempt yields.
  Python's \<open>int\<close> is \<open>int\<close>; the two float parameters are read as reals. Everything the
  coroutine does besides returning is written to a trace, in program order.
\<close>

datatype health_reply = Status int | RequestError

datatype wait_event =
    Get_health int real
  | Log_healthy int
  | Log_attempt_failed int
  | Sleep real
  | Log_not_recovered int

definition HEALTH_CLIENT_TIMEOUT :: real where
  "HEALTH_CLIENT_TIMEOUT = 5"

definition DEFAULT_MAX_ATTEMPTS :: int where
  "DEFAULT_MAX_ATTEMPTS = 30"

definition DEFAULT_DELAY_SECONDS :: real where
  "DEFAULT_DELAY_SECONDS = 1"

text \<open>
  The body of the \<open>for\<close> loop over the attempts still to run. \<open>Some True\<close> is the
  \<open>return True\<close> inside the loop; \<open>None\<close> is the loop running to its end.
\<close>

fun wait_attempts ::
  "(int \<Rightarrow> health_reply) \<Rightarrow> real \<Rightarrow> int list \<Rightarrow> bool option \<times> wait_event list" where
  "wait_attempts probe delay_seconds [] = (None, [])"
| "wait_attempts probe delay_seconds (attempt # rest) =
     (case probe attempt of
        Status status_code \<Rightarrow>
          if status_code = 200
          then (Some True, [Get_health attempt HEALTH_CLIENT_TIMEOUT, Log_healthy attempt])
          else (case wait_attempts probe delay_seconds rest of
                  (r, tr) \<Rightarrow>
                    (r, Get_health attempt HEALTH_CLIENT_TIMEOUT # Sleep delay_seconds # tr))
      | RequestError \<Rightarrow>
          (case wait_attempts probe delay_seconds rest of
             (r, tr) \<Rightarrow>
               (r, Get_health attempt HEALTH_CLIENT_TIMEOUT # Log_attempt_failed attempt
                     # Sleep delay_seconds # tr)))"

text \<open>\<open>range(1, max_attempts + 1)\<close> is the integer interval \<open>[1..max_attempts]\<close>, empty below 1.\<close>

definition wait :: "(int \<Rightarrow> health_reply) \<Rightarrow> int \<Rightarrow> real \<Rightarrow> bool \<times> wait_event list" where
  "wait probe max_attempts delay_seconds =
     (case wait_attempts probe delay_seconds [1..max_attempts] of
        (Some r, tr) \<Rightarrow> (r, tr)
      | (None, tr) \<Rightarrow> (False, tr @ [Log_not_recovered max_attempts]))"

text \<open>Readers of the trace.\<close>

fun probed_attempts :: "wait_event list \<Rightarrow> int list" where
  "probed_attempts [] = []"
| "probed_attempts (Get_health a t # es) = a # probed_attempts es"
| "probed_attempts (e # es) = probed_attempts es"

fun probe_timeouts :: "wait_event list \<Rightarrow> real list" where
  "probe_timeouts [] = []"
| "probe_timeouts (Get_health a t # es) = t # probe_timeouts es"
| "probe_timeouts (e # es) = probe_timeouts es"

fun sleeps :: "wait_event list \<Rightarrow> real list" where
  "sleeps [] = []"
| "sleeps (Sleep d # es) = d # sleeps es"
| "sleeps (e # es) = sleeps es"

fun logged_failures :: "wait_event list \<Rightarrow> int list" where
  "logged_failures [] = []"
| "logged_failures (Log_attempt_failed a # es) = a # logged_failures es"
| "logged_failures (e # es) = logged_failures es"

text \<open>What one attempt that does not see status 200 leaves in the trace.\<close>

definition failed_attempt :: "(int \<Rightarrow> health_reply) \<Rightarrow> real \<Rightarrow> int \<Rightarrow> wait_event list" where
  "failed_attempt probe delay_seconds attempt =
     (case probe attempt of
        Status status_code \<Rightarrow> [Get_health attempt HEALTH_CLIENT_TIMEOUT, Sleep delay_seconds]
      | RequestError \<Rightarrow>
          [Get_health attempt HEALTH_CLIENT_TIMEOUT, Log_attempt_failed attempt,
           Sleep delay_seconds])"

text \<open>Two services used as concrete inputs: one that answers 503 and one that is down.\<close>

definition always_503 :: "int \<Rightarrow> health_reply" where
  "always_503 attempt = Status 503"

definition always_down :: "int \<Rightarrow> health_reply" where
  "always_down attempt = RequestError"

definition healthy_from :: "int \<Rightarrow> int \<Rightarrow> health_reply" where
  "healthy_from k attempt = (if attempt < k then RequestError else Status 200)"

text \<open>A probe counts as failed unless it returns status 200.\<close>

definition probe_failed :: "health_reply \<Rightarrow> bool" where
  "probe_failed r = (r \<noteq> Status 200)"

text \<open>The property "every probe's timeout is strictly below the delay".\<close>

definition timeouts_below :: "real \<Rightarrow> wait_event list \<Rightarrow> bool" where
  "timeouts_below delay_seconds tr = list_all (\<lambda>t. t < delay_seconds) (probe_timeouts tr)"

definition flaky :: "int \<Rightarrow> health_reply" where
  "flaky attempt = (if attempt = 2 then Status 503 else RequestError)"

section \<open>The users service (app/main.py, app/models.py)\<close>

text \<open>
  \<open>UserCreate\<close> is the validated request body. A row of table \<open>users\<close> adds the primary
  key \<open>id\<close>, here \<open>user_id\<close>; \<open>UserResponse\<close> has the same four fields, so a row is also
  what the endpoints return. The timestamps of the row are not read by any endpoint.
\<close>

record user_create =
  name :: string
  email :: string
  is_active :: bool

record user = user_create +
  user_id :: int

text \<open>
  The database behind the SQLAlchemy session: the rows of \<open>users\<close> in insertion order and
  the sequence that feeds the primary key. \<open>email\<close> is declared \<open>unique=True\<close>.
\<close>

record database =
  users :: "user list"
  users_id_seq :: int

datatype sql_error = IntegrityError

datatype response_body =
    User_body user
  | Detail string
  | Deleted string int

text \<open>
  \<open>db.add(db_user); db.commit(); db.refresh(db_user)\<close>: the INSERT draws the next value of
  the sequence and is refused with \<open>IntegrityError\<close> when the email or the key is already
  in the table. A refused INSERT leaves the rows as they were; the sequence value it drew is
  not given back.
\<close>

definition commit_user :: "user_create \<Rightarrow> database \<Rightarrow> (sql_error + user) \<times> database" where
  "commit_user payload db =
     (let new_id = users_id_seq db + 1;
          db_user = \<lparr>name = name payload, email = email payload,
                     is_active = is_active payload, user_id = new_id\<rparr>;
          db1 = db\<lparr>users_id_seq := new_id\<rparr>
      in if email payload \<in> set (map email (users db)) \<or> new_id \<in> set (map user_id (users db))
         then (Inl IntegrityError, db1)
         else (Inr db_user, db1\<lparr>users := users db @ [db_user]\<rparr>))"

definition create_user :: "user_create \<Rightarrow> database \<Rightarrow> (int \<times> response_body) \<times> database" where
  "create_user payload db =
     (case commit_user payload db of
        (Inr db_user, db1) \<Rightarrow> ((201, User_body db_user), db1)
      | (Inl IntegrityError, db1) \<Rightarrow> ((400, Detail ''Email already registered''), db1))"

definition list_users :: "database \<Rightarrow> int \<times> user list" where
  "list_users db = (200, users db)"

text \<open>
  \<open>delete_user\<close>: \<open>.first()\<close> of the rows with that id, 404 when there is none, otherwise
  \<open>DELETE FROM users WHERE id = user_id\<close> and 200.
\<close>

definition delete_user :: "int \<Rightarrow> database \<Rightarrow> (int \<times> response_body) \<times> database" where
  "delete_user i db =
     (case find (\<lambda>u. user_id u = i) (users db) of
        None \<Rightarrow> ((404, Detail ''User not found''), db)
      | Some u \<Rightarrow>
          ((200, Deleted ''User deleted successfully'' i),
           db\<lparr>users := filter (\<lambda>r. user_id r \<noteq> i) (users db)\<rparr>))"

text \<open>The row that a successful \<open>create_user\<close> adds and returns.\<close>

definition created :: "user_create \<Rightarrow> database \<Rightarrow> user" where
  "created payload db =
     \<lparr>name = name payload, email = email payload, is_active = is_active payload,
      user_id = users_id_seq db + 1\<rparr>"

text \<open>The two payloads of test TC\_009 and an empty database.\<close>

definition first_user :: user_create where
  "first_user = \<lparr>name = ''User One'', email = ''user1@example.com'', is_active = True\<rparr>"

definition duplicate_user :: user_create where
  "duplicate_user = \<lparr>name = ''User Two'', email = ''user1@example.com'', is_active = True\<rparr>"

definition empty_db :: database where
  "empty_db = \<lparr>users = [], users_id_seq = 0\<rparr>"

section \<open>State reset (conftest.py, \_delete\_all\_users and clean\_database)\<close>

text \<open>
  The harness talks to the service over HTTP. Each request it sends is either delivered to
  the service and answered by it, or fails in transport (\<open>httpx.RequestError\<close>, the service
  never sees it), or is answered with status 500 by a service that cannot work (the store
  is not touched), or is answered with status 200 by something that is not this service,
  with a body of its own (the store is not touched). Which of these happens is the
  environment: \<open>net k req\<close> for the request \<open>req\<close> sent as number \<open>k\<close> (counted from 0) by
  this client.

  A response body, as lines 72 to 74 of conftest.py see it: \<open>response.json()\<close> raises when
  the body is not JSON; the \<open>for\<close> raises \<open>TypeError\<close> when the parsed value cannot be
  iterated (a number, a boolean, null); otherwise the loop meets a sequence of elements,
  each of which is an object with a \<open>get\<close> method or is not (the elements of a list that
  are not objects, the keys of an object, the characters of a string), and \<open>user.get\<close> raises
  \<open>AttributeError\<close> on the first that is not. Of an object only \<open>user.get("id")\<close> is read,
  which is \<open>None\<close> when the key is missing; an id that is present is an integer, as in
  \<open>UserResponse\<close>.
\<close>

datatype request = Get_users | Delete_user int

record user_json =
  id_field :: "int option"

datatype json_item = Object user_json | Not_object

datatype json_body = Not_json | Not_iterable | Items "json_item list"

datatype fault = Delivered | Unreachable | Server_error | Foreign json_body

datatype httpx_exc = Request_error | HTTP_status_error

datatype reset_exc = JSONDecodeError | TypeError | AttributeError | Uncaught httpx_exc

datatype reset_warning = Unable_to_fetch httpx_exc | Failed_to_delete int httpx_exc

record world =
  service :: database
  sent :: "request list"
  warnings :: "reset_warning list"

definition to_json :: "user \<Rightarrow> user_json" where
  "to_json u = \<lparr>id_field = Some (user_id u)\<rparr>"

text \<open>The body the list endpoint answers with: one object for each row.\<close>

definition listing :: "user list \<Rightarrow> json_item list" where
  "listing rows = map (\<lambda>r. Object (to_json r)) rows"

definition client_get_users ::
  "(nat \<Rightarrow> request \<Rightarrow> fault) \<Rightarrow> world \<Rightarrow> (httpx_exc + int \<times> json_body) \<times> world" where
  "client_get_users net w =
     (let w1 = w\<lparr>sent := sent w @ [Get_users]\<rparr>
      in case net (length (sent w)) Get_users of
           Unreachable \<Rightarrow> (Inl Request_error, w1)
         | Server_error \<Rightarrow> (Inr (500, Not_json), w1)
         | Foreign body \<Rightarrow> (Inr (200, body), w1)
         | Delivered \<Rightarrow>
             (case list_users (service w) of
                (status, rows) \<Rightarrow> (Inr (status, Items (listing rows)), w1)))"

definition client_delete ::
  "(nat \<Rightarrow> request \<Rightarrow> fault) \<Rightarrow> int \<Rightarrow> world \<Rightarrow> (httpx_exc + int) \<times> world" where
  "client_delete net i w =
     (let w1 = w\<lparr>sent := sent w @ [Delete_user i]\<rparr>
      in case net (length (sent w)) (Delete_user i) of
           Unreachable \<Rightarrow> (Inl Request_error, w1)
         | Server_error \<Rightarrow> (Inr 500, w1)
         | Foreign body \<Rightarrow> (Inr 200, w1)
         | Delivered \<Rightarrow>
             (case delete_user i (service w) of
                ((status, body), db1) \<Rightarrow> (Inr status, w1\<lparr>service := db1\<rparr>)))"

text \<open>\<open>response.raise_for_status()\<close> raises \<open>HTTPStatusError\<close> unless the status is 2xx.\<close>

definition raise_for_status :: "int \<Rightarrow> httpx_exc + unit" where
  "raise_for_status status =
     (if 200 \<le> status \<and> status < 300 then Inr () else Inl HTTP_status_error)"

text \<open>
  The \<open>for user in users\<close> loop. The result is the exception that left the loop, if any,
  and the world as the loop left it. \<open>user.get\<close> raises on an element that is not an
  object. \<open>not user_id\<close> holds for \<open>None\<close> and for \<open>0\<close>. The \<open>except httpx.RequestError\<close>
  around the DELETE catches that exception only; anything else leaves the function. The
  status of the DELETE response is not looked at.
\<close>

fun delete_each ::
  "(nat \<Rightarrow> request \<Rightarrow> fault) \<Rightarrow> json_item list \<Rightarrow> world \<Rightarrow> reset_exc option \<times> world" where
  "delete_each net [] w = (None, w)"
| "delete_each net (Not_object # rest) w = (Some AttributeError, w)"
| "delete_each net (Object u # rest) w =
     (case id_field u of
        None \<Rightarrow> delete_each net rest w
      | Some i \<Rightarrow>
          if i = 0 then delete_each net rest w
          else (case client_delete net i w of
                  (Inr status, w1) \<Rightarrow> delete_each net rest w1
                | (Inl exc, w1) \<Rightarrow>
                    if exc = Request_error
                    then delete_each net rest
                           (w1\<lparr>warnings := warnings w1 @ [Failed_to_delete i exc]\<rparr>)
                    else (Some (Uncaught exc), w1)))"

text \<open>
  \<open>_delete_all_users\<close>. \<open>except httpx.HTTPError\<close> around the GET and \<open>raise_for_status\<close>
  catches both httpx exceptions: it logs and returns. Parsing the body and the loop come
  after the \<open>try\<close>, so what they raise leaves the function.
\<close>

definition delete_all_users ::
  "(nat \<Rightarrow> request \<Rightarrow> fault) \<Rightarrow> world \<Rightarrow> reset_exc option \<times> world" where
  "delete_all_users net w =
     (case client_get_users net w of
        (Inl exc, w1) \<Rightarrow> (None, w1\<lparr>warnings := warnings w1 @ [Unable_to_fetch exc]\<rparr>)
      | (Inr (status, body), w1) \<Rightarrow>
          (case raise_for_status status of
             Inl exc \<Rightarrow> (None, w1\<lparr>warnings := warnings w1 @ [Unable_to_fetch exc]\<rparr>)
           | Inr ok \<Rightarrow>
               (case body of
                  Not_json \<Rightarrow> (Some JSONDecodeError, w1)
                | Not_iterable \<Rightarrow> (Some TypeError, w1)
                | Items users_json \<Rightarrow> delete_each net users_json w1)))"

text \<open>The part of the fixture \<open>clean_database\<close> that runs before the test body.\<close>

definition clean_database_setup ::
  "(nat \<Rightarrow> request \<Rightarrow> fault) \<Rightarrow> world \<Rightarrow> reset_exc option \<times> world" where
  "clean_database_setup net w = delete_all_users net w"


text \<open>Readers of the result of a call.\<close>

definition raised :: "reset_exc option \<times> world \<Rightarrow> reset_exc option" where
  "raised r = fst r"

definition store_after :: "reset_exc option \<times> world \<Rightarrow> database" where
  "store_after r = service (snd r)"

definition rows_after :: "reset_exc option \<times> world \<Rightarrow> user list" where
  "rows_after r = users (service (snd r))"

definition requests_after :: "reset_exc option \<times> world \<Rightarrow> request list" where
  "requests_after r = sent (snd r)"

definition warnings_after :: "reset_exc option \<times> world \<Rightarrow> reset_warning list" where
  "warnings_after r = warnings (snd r)"

text \<open>The objects the loop meets before the first element that is not one.\<close>

fun leading_objects :: "json_item list \<Rightarrow> user_json list" where
  "leading_objects [] = []"
| "leading_objects (Not_object # rest) = []"
| "leading_objects (Object u # rest) = u # leading_objects rest"

fun all_objects :: "json_item list \<Rightarrow> bool" where
  "all_objects [] = True"
| "all_objects (Not_object # rest) = False"
| "all_objects (Object u # rest) = all_objects rest"

text \<open>Whether the answer to the list request gets through lines 72 to 74 without a raise.\<close>

fun readable :: "fault \<Rightarrow> bool" where
  "readable (Foreign Not_json) = False"
| "readable (Foreign Not_iterable) = False"
| "readable (Foreign (Items users_json)) = all_objects users_json"
| "readable f = True"

text \<open>The ids the loop sends a DELETE for.\<close>

fun truthy_ids :: "user_json list \<Rightarrow> int list" where
  "truthy_ids [] = []"
| "truthy_ids (u # rest) =
     (case id_field u of
        None \<Rightarrow> truthy_ids rest
      | Some i \<Rightarrow> if i = 0 then truthy_ids rest else i # truthy_ids rest)"

text \<open>
  Under an environment that treats a request the same whenever it is sent, the rows a
  reset leaves of a listing by the service are those it skips (id 0) and those whose
  DELETE does not get through.
\<close>

definition survives :: "(nat \<Rightarrow> request \<Rightarrow> fault) \<Rightarrow> user \<Rightarrow> bool" where
  "survives net u = (user_id u = 0 \<or> net 0 (Delete_user (user_id u)) \<noteq> Delivered)"

text \<open>The world after one pass of the loop body that sends the DELETE for id \<open>i\<close>.\<close>

definition after_delete :: "(nat \<Rightarrow> request \<Rightarrow> fault) \<Rightarrow> int \<Rightarrow> world \<Rightarrow> world" where
  "after_delete net i w =
     (case client_delete net i w of
        (Inr status, w1) \<Rightarrow> w1
      | (Inl exc, w1) \<Rightarrow> w1\<lparr>warnings := warnings w1 @ [Failed_to_delete i exc]\<rparr>)"

text \<open>One pass of the loop body on an object.\<close>

definition loop_pass :: "(nat \<Rightarrow> request \<Rightarrow> fault) \<Rightarrow> user_json \<Rightarrow> world \<Rightarrow> world" where
  "loop_pass net u w =
     (case id_field u of
        None \<Rightarrow> w
      | Some i \<Rightarrow> if i = 0 then w else after_delete net i w)"

text \<open>The ids whose DELETE is sent for a body and gets through to the service.\<close>

definition doomed :: "(nat \<Rightarrow> request \<Rightarrow> fault) \<Rightarrow> json_item list \<Rightarrow> int list" where
  "doomed net users_json =
     filter (\<lambda>i. net 0 (Delete_user i) = Delivered) (truthy_ids (leading_objects users_json))"

text \<open>
  The database a call leaves, as a function of the database it finds, under an
  environment that treats a request the same whenever it is sent.
\<close>

definition reset_store :: "(nat \<Rightarrow> request \<Rightarrow> fault) \<Rightarrow> database \<Rightarrow> database" where
  "reset_store net db =
     (case net 0 Get_users of
        Delivered \<Rightarrow> db\<lparr>users := filter (survives net) (users db)\<rparr>
      | Foreign (Items users_json) \<Rightarrow>
          db\<lparr>users := filter (\<lambda>r. user_id r \<notin> set (doomed net users_json)) (users db)\<rparr>
      | Foreign Not_json \<Rightarrow> db
      | Foreign Not_iterable \<Rightarrow> db
      | Unreachable \<Rightarrow> db
      | Server_error \<Rightarrow> db)"

text \<open>A listing with a missing id and a zero id, as a concrete input of the loop.\<close>

definition listed :: "user_json list" where
  "listed = [\<lparr>id_field = Some 1\<rparr>, \<lparr>id_field = None\<rparr>, \<lparr>id_field = Some 0\<rparr>,
             \<lparr>id_field = Some 2\<rparr>]"

definition fresh_world :: "user list \<Rightarrow> world" where
  "fresh_world rows =
     \<lparr>service = \<lparr>users = rows, users_id_seq = int (length rows)\<rparr>, sent = [], warnings = []\<rparr>"

definition alice :: user where
  "alice = \<lparr>name = ''Alice'', email = ''alice@example.com'', is_active = True, user_id = 1\<rparr>"

definition bob :: user where
  "bob = \<lparr>name = ''Bob'', email = ''bob@example.com'', is_active = True, user_id = 2\<rparr>"

definition zero :: user where
  "zero = \<lparr>name = ''Zero'', email = ''zero@example.com'', is_active = False, user_id = 0\<rparr>"

text \<open>Environments used as concrete inputs.\<close>

definition reliable :: "nat \<Rightarrow> request \<Rightarrow> fault" where
  "reliable k req = Delivered"

definition service_down :: "nat \<Rightarrow> request \<Rightarrow> fault" where
  "service_down k req = Unreachable"

definition service_failing :: "nat \<Rightarrow> request \<Rightarrow> fault" where
  "service_failing k req = Server_error"



section \<open>Application metrics (app/metrics.py)\<close>

text \<open>
  The module keeps one dictionary, bound to the global \<open>_metrics\<close>, and mutates it in
  place. \<open>get_metrics\<close> hands out a new dictionary object. Dictionaries are objects with
  identity: a reference is either the global's object or one of the objects handed out, and
  the module state holds the contents of both kinds. A dictionary is an association list
  in insertion order; the values are Python numbers, read as reals.
\<close>

type_synonym pydict = "(string \<times> real) list"

datatype py_error = KeyError string | ZeroDivisionError

datatype dict_ref = Metrics_global | Snapshot nat

record metrics_module =
  metrics :: pydict
  snapshots :: "pydict list"

definition initial_metrics :: pydict where
  "initial_metrics =
     [(''app_requests_total'', 0), (''app_requests_failed'', 0),
      (''db_connection_ok'', 1), (''db_last_error_timestamp'', 0)]"

definition module_loaded :: metrics_module where
  "module_loaded = \<lparr>metrics = initial_metrics, snapshots = []\<rparr>"

text \<open>\<open>d[key] += n\<close>: the lookup raises \<open>KeyError\<close> when the key is absent.\<close>

definition iadd_item :: "string \<Rightarrow> real \<Rightarrow> pydict \<Rightarrow> py_error + pydict" where
  "iadd_item key n d =
     (case map_of d key of
        None \<Rightarrow> Inl (KeyError key)
      | Some v \<Rightarrow> Inr (AList.update key (v + n) d))"

text \<open>
  \<open>record_request\<close>. The result is the exception raised, if any, and the module state the
  call leaves: an increment done before a raise stays done.
\<close>

definition record_request :: "bool \<Rightarrow> metrics_module \<Rightarrow> py_error option \<times> metrics_module" where
  "record_request success st =
     (case iadd_item ''app_requests_total'' 1 (metrics st) of
        Inl e \<Rightarrow> (Some e, st)
      | Inr d1 \<Rightarrow>
          if \<not> success
          then (case iadd_item ''app_requests_failed'' 1 d1 of
                  Inl e \<Rightarrow> (Some e, st\<lparr>metrics := d1\<rparr>)
                | Inr d2 \<Rightarrow> (None, st\<lparr>metrics := d2\<rparr>))
          else (None, st\<lparr>metrics := d1\<rparr>))"

text \<open>A sequence of calls; it stops at the first call that raises.\<close>

fun record_requests :: "bool list \<Rightarrow> metrics_module \<Rightarrow> py_error option \<times> metrics_module" where
  "record_requests [] st = (None, st)"
| "record_requests (success # rest) st =
     (case record_request success st of
        (Some e, st1) \<Rightarrow> (Some e, st1)
      | (None, st1) \<Rightarrow> record_requests rest st1)"

text \<open>\<open>get_metrics\<close>: \<open>_metrics.copy()\<close> is a new object with the same items.\<close>

definition get_metrics :: "metrics_module \<Rightarrow> dict_ref \<times> metrics_module" where
  "get_metrics st =
     (Snapshot (length (snapshots st)), st\<lparr>snapshots := snapshots st @ [metrics st]\<rparr>)"

text \<open>Reading a dictionary through a reference, and any in-place mutation through one.\<close>

definition deref :: "metrics_module \<Rightarrow> dict_ref \<Rightarrow> pydict option" where
  "deref st r =
     (case r of
        Metrics_global \<Rightarrow> Some (metrics st)
      | Snapshot n \<Rightarrow> if n < length (snapshots st) then Some (snapshots st ! n) else None)"

definition mutate :: "dict_ref \<Rightarrow> (pydict \<Rightarrow> pydict) \<Rightarrow> metrics_module \<Rightarrow> metrics_module" where
  "mutate r f st =
     (case r of
        Metrics_global \<Rightarrow> st\<lparr>metrics := f (metrics st)\<rparr>
      | Snapshot n \<Rightarrow>
          if n < length (snapshots st)
          then st\<lparr>snapshots := (snapshots st)[n := f (snapshots st ! n)]\<rparr>
          else st)"

definition metric :: "string \<Rightarrow> metrics_module \<Rightarrow> real option" where
  "metric key st = map_of (metrics st) key"

text \<open>
  The error rate of test\_chaos\_load.py, a percentage:
  \<open>(failed_requests / total_requests * 100) if total_requests > 0 else 0\<close>.
\<close>

definition truediv :: "int \<Rightarrow> int \<Rightarrow> py_error + real" where
  "truediv a b = (if b = 0 then Inl ZeroDivisionError else Inr (real_of_int a / real_of_int b))"

definition error_rate :: "int \<Rightarrow> int \<Rightarrow> py_error + real" where
  "error_rate total_requests failed_requests =
     (if total_requests > 0
      then (case truediv failed_requests total_requests of
              Inl e \<Rightarrow> Inl e
            | Inr q \<Rightarrow> Inr (q * 100))
      else Inr 0)"

text \<open>\<open>d.clear()\<close>, one of the mutations a caller can apply to a dictionary it holds.\<close>

definition dict_clear :: "pydict \<Rightarrow> pydict" where
  "dict_clear d = []"

section \<open>Docker helpers (conftest.py)\<close>

text \<open>
  \<open>subprocess.run(command, check=True, capture_output=True, text=True)\<close> either cannot
  start the program (an \<open>OSError\<close> such as \<open>FileNotFoundError\<close>), or the program runs and
  exits with a return code and its captured output. With \<open>text=True\<close> the captured bytes
  are decoded while they are collected, so output that is not valid in the locale's
  encoding raises \<open>UnicodeDecodeError\<close> whatever the return code is. With \<open>check=True\<close> a
  non-zero return code then raises \<open>CalledProcessError\<close>, which carries the code and the
  decoded stderr. What a command does is the environment \<open>sh\<close>.
\<close>

datatype completed =
    Exited int string string
  | Exited_undecodable int
  | Not_started

datatype proc_exc =
    CalledProcessError int string
  | OSError
  | UnicodeDecodeError
  | OverflowError

datatype docker_event =
    Log_info string
  | Run "string list"
  | Time_sleep int
  | Log_error string

definition exit_code :: "completed \<Rightarrow> int option" where
  "exit_code c =
     (case c of
        Exited returncode out err \<Rightarrow> Some returncode
      | Exited_undecodable returncode \<Rightarrow> Some returncode
      | Not_started \<Rightarrow> None)"

definition decodable :: "completed \<Rightarrow> bool" where
  "decodable c =
     (case c of
        Exited returncode out err \<Rightarrow> True
      | Exited_undecodable returncode \<Rightarrow> False
      | Not_started \<Rightarrow> True)"

definition captured_stderr :: "completed \<Rightarrow> string" where
  "captured_stderr c =
     (case c of
        Exited returncode out err \<Rightarrow> err
      | Exited_undecodable returncode \<Rightarrow> []
      | Not_started \<Rightarrow> [])"

definition subprocess_run ::
  "(string list \<Rightarrow> completed) \<Rightarrow> string list \<Rightarrow> proc_exc + int \<times> string \<times> string" where
  "subprocess_run sh command =
     (case sh command of
        Not_started \<Rightarrow> Inl OSError
      | Exited_undecodable returncode \<Rightarrow> Inl UnicodeDecodeError
      | Exited returncode out err \<Rightarrow>
          if returncode \<noteq> 0 then Inl (CalledProcessError returncode err)
          else Inr (returncode, out, err))"

text \<open>
  \<open>time.sleep(secs)\<close> for an integer: CPython holds the duration in 64-bit nanoseconds and
  raises \<open>OverflowError\<close> for more seconds than fit. It is called for positive values only.
\<close>

definition SLEEP_MAX :: int where
  "SLEEP_MAX = 9223372036"

definition time_sleep :: "int \<Rightarrow> proc_exc + unit" where
  "time_sleep secs = (if SLEEP_MAX < secs then Inl OverflowError else Inr ())"

text \<open>\<open>sep.join(words)\<close>.\<close>

fun str_join :: "string \<Rightarrow> string list \<Rightarrow> string" where
  "str_join sep [] = []"
| "str_join sep [x] = x"
| "str_join sep (x # y # ys) = x @ sep @ str_join sep (y # ys)"

definition DOCKER_WAIT_SECONDS :: int where
  "DOCKER_WAIT_SECONDS = 10"

text \<open>
  \<open>_run_docker_command\<close>. The result is what the call returns or the exception that leaves
  it, and what it did. Only \<open>CalledProcessError\<close> is caught; \<open>exc.stderr or "Unknown error"\<close>
  is the captured stderr unless that is empty.
\<close>

definition run_docker_command ::
  "(string list \<Rightarrow> completed) \<Rightarrow> string list \<Rightarrow> int \<Rightarrow> (proc_exc + bool) \<times> docker_event list" where
  "run_docker_command sh command wait_time =
     (let started = [Log_info (''Running docker command: '' @ str_join '' '' command),
                     Run command]
      in case subprocess_run sh command of
           Inr result \<Rightarrow>
             if wait_time > 0
             then (case time_sleep wait_time of
                     Inl exc \<Rightarrow> (Inl exc, started)
                   | Inr slept \<Rightarrow> (Inr True, started @ [Time_sleep wait_time]))
             else (Inr True, started)
         | Inl (CalledProcessError returncode err) \<Rightarrow>
             (Inr False,
              started @ [Log_error (''Docker command failed: ''
                                     @ (if err = [] then ''Unknown error'' else err))])
         | Inl OSError \<Rightarrow> (Inl OSError, started)
         | Inl UnicodeDecodeError \<Rightarrow> (Inl UnicodeDecodeError, started)
         | Inl OverflowError \<Rightarrow> (Inl OverflowError, started))"

definition restart_container ::
  "(string list \<Rightarrow> completed) \<Rightarrow> string \<Rightarrow> int \<Rightarrow> (proc_exc + bool) \<times> docker_event list" where
  "restart_container sh container_name wait_time =
     run_docker_command sh [''docker'', ''restart'', container_name] wait_time"

definition stop_container ::
  "(string list \<Rightarrow> completed) \<Rightarrow> string \<Rightarrow> (proc_exc + bool) \<times> docker_event list" where
  "stop_container sh container_name =
     run_docker_command sh [''docker'', ''stop'', container_name] 0"

definition start_container ::
  "(string list \<Rightarrow> completed) \<Rightarrow> string \<Rightarrow> int \<Rightarrow> (proc_exc + bool) \<times> docker_event list" where
  "start_container sh container_name wait_time =
     run_docker_command sh [''docker'', ''start'', container_name] wait_time"

text \<open>What a call has done when the command has been run: the log line and the command.\<close>

definition started_events :: "string list \<Rightarrow> docker_event list" where
  "started_events command =
     [Log_info (''Running docker command: '' @ str_join '' '' command), Run command]"

text \<open>The diagnostics logged for a failed command.\<close>

definition failure_log :: "completed \<Rightarrow> docker_event" where
  "failure_log c =
     Log_error (''Docker command failed: ''
                 @ (if captured_stderr c = [] then ''Unknown error'' else captured_stderr c))"

text \<open>A Docker daemon that knows one container, \<open>recovery_fastapi\<close>.\<close>

definition one_container :: "string list \<Rightarrow> completed" where
  "one_container command =
     (if command = [''docker'', ''stop'', ''recovery_fastapi''] then Exited 0 ''recovery_fastapi'' []
      else Exited 1 [] ''Error response from daemon: No such container'')"

text \<open>
  A Docker client that fails with exit code 1 and writes bytes to stderr that do not
  decode in the locale's encoding.
\<close>

definition undecodable_failure :: "string list \<Rightarrow> completed" where
  "undecodable_failure command = Exited_undecodable 1"

section \<open>Properties of the health wait\<close>

subsection \<open>Lemmas on the loop\<close>

lemma probed_attempts_append:
  "probed_attempts (xs @ ys) = probed_attempts xs @ probed_attempts ys"
  by (induction xs rule: probed_attempts.induct) simp_all

lemma probe_timeouts_append:
  "probe_timeouts (xs @ ys) = probe_timeouts xs @ probe_timeouts ys"
  by (induction xs rule: probe_timeouts.induct) simp_all

lemma sleeps_append: "sleeps (xs @ ys) = sleeps xs @ sleeps ys"
  by (induction xs rule: sleeps.induct) simp_all

lemma logged_failures_append:
  "logged_failures (xs @ ys) = logged_failures xs @ logged_failures ys"
  by (induction xs rule: logged_failures.induct) simp_all

lemma probed_attempts_failed:
  "probed_attempts (concat (map (failed_attempt probe d) as)) = as"
  by (induction as)
     (simp_all add: probed_attempts_append failed_attempt_def split: health_reply.split)

lemma probe_timeouts_failed:
  "probe_timeouts (concat (map (failed_attempt probe d) as))
     = replicate (length as) HEALTH_CLIENT_TIMEOUT"
  by (induction as)
     (simp_all add: probe_timeouts_append failed_attempt_def split: health_reply.split)

lemma sleeps_failed:
  "sleeps (concat (map (failed_attempt probe d) as)) = replicate (length as) d"
  by (induction as)
     (simp_all add: sleeps_append failed_attempt_def split: health_reply.split)

lemma logged_failures_failed:
  "logged_failures (concat (map (failed_attempt probe d) as))
     = filter (\<lambda>a. probe a = RequestError) as"
  by (induction as)
     (simp_all add: logged_failures_append failed_attempt_def split: health_reply.split)

lemma wait_attempts_all_fail:
  "list_all (\<lambda>a. probe a \<noteq> Status 200) as \<Longrightarrow>
   wait_attempts probe d as = (None, concat (map (failed_attempt probe d) as))"
  by (induction as) (auto simp: failed_attempt_def split: health_reply.split)

lemma wait_attempts_first_success:
  "list_all (\<lambda>a. probe a \<noteq> Status 200) pre \<Longrightarrow> probe k = Status 200 \<Longrightarrow>
   wait_attempts probe d (pre @ k # post)
     = (Some True, concat (map (failed_attempt probe d) pre)
                     @ [Get_health k HEALTH_CLIENT_TIMEOUT, Log_healthy k])"
  by (induction pre) (auto simp: failed_attempt_def split: health_reply.split)

lemma upto_1_numeral [simp]: "[1..numeral n] = 1 # [2..numeral n]"
  by (simp add: upto_rec1)

lemma wait_attempts_timeouts:
  "probe_timeouts (snd (wait_attempts probe d as))
     = replicate (length (probed_attempts (snd (wait_attempts probe d as))))
         HEALTH_CLIENT_TIMEOUT"
  by (induction as) (auto split: health_reply.split prod.split)

lemma wait_attempts_probes_first:
  "probed_attempts (snd (wait_attempts probe d (a # as))) \<noteq> []"
  by (auto split: health_reply.split prod.split)

lemma wait_trace_cases:
  "snd (wait probe m d) = snd (wait_attempts probe d [1..m]) \<or>
   snd (wait probe m d) = snd (wait_attempts probe d [1..m]) @ [Log_not_recovered m]"
  by (auto simp: wait_def split: prod.split option.split)

lemma wait_probe_timeouts:
  "probe_timeouts (snd (wait probe m d))
     = replicate (length (probed_attempts (snd (wait probe m d)))) HEALTH_CLIENT_TIMEOUT"
  using wait_trace_cases [of probe m d] wait_attempts_timeouts [of probe d "[1..m]"]
  by (auto simp: probe_timeouts_append probed_attempts_append)

lemma wait_probes_nonempty:
  "probed_attempts (snd (wait probe m d)) = [] \<longleftrightarrow> m < 1"
proof (cases "m < 1")
  case True
  then show ?thesis by (simp add: wait_def)
next
  case False
  then have "[1..m] = 1 # [2..m]" by (simp add: upto_rec1)
  then have "probed_attempts (snd (wait_attempts probe d [1..m])) \<noteq> []"
    using wait_attempts_probes_first [of probe d 1 "[2..m]"] by simp
  then show ?thesis
    using False wait_trace_cases [of probe m d] by (auto simp: probed_attempts_append)
qed

subsection \<open>The claims on the health wait\<close>

lemma list_all_probe_failed:
  "list_all probe_failed (map probe as) = list_all (\<lambda>a. probe a \<noteq> Status 200) as"
  by (simp add: list_all_iff probe_failed_def)

text \<open>
  C1. Let attempt \<open>k\<close>, within the budget, be the first whose probe returns status 200.
  Then \<open>_wait\<close> returns \<open>True\<close>; the attempts probed are exactly \<open>1, ..., k\<close>; there are
  \<open>k - 1\<close> sleeps, one after each failed attempt; and the trace ends with the successful GET
  and its log line, so nothing is probed and nothing sleeps after the success.
\<close>

theorem wait_stops_at_first_success:
  assumes "1 \<le> k" and "k \<le> max_attempts"
    and "probe k = Status 200"
    and "list_all probe_failed (map probe [1..k - 1])"
  shows "wait probe max_attempts d
           = (True, concat (map (failed_attempt probe d) [1..k - 1])
                      @ [Get_health k HEALTH_CLIENT_TIMEOUT, Log_healthy k])
         \<and> probed_attempts (snd (wait probe max_attempts d)) = [1..k]
         \<and> sleeps (snd (wait probe max_attempts d)) = replicate (nat (k - 1)) d"
proof -
  have split: "[1..max_attempts] = [1..k - 1] @ k # [k + 1..max_attempts]"
    using assms(1,2) by (rule upto_split3)
  have pre: "list_all (\<lambda>a. probe a \<noteq> Status 200) [1..k - 1]"
    using assms(4) by (simp add: list_all_probe_failed)
  have run: "wait_attempts probe d [1..max_attempts]
      = (Some True, concat (map (failed_attempt probe d) [1..k - 1])
                      @ [Get_health k HEALTH_CLIENT_TIMEOUT, Log_healthy k])"
    unfolding split using pre assms(3) by (rule wait_attempts_first_success)
  have res: "wait probe max_attempts d
      = (True, concat (map (failed_attempt probe d) [1..k - 1])
                 @ [Get_health k HEALTH_CLIENT_TIMEOUT, Log_healthy k])"
    by (simp add: wait_def run)
  have "[1..k] = [1..k - 1] @ [k]"
    using assms(1) by (simp add: upto_rec2)
  then have probes: "probed_attempts (snd (wait probe max_attempts d)) = [1..k]"
    by (simp add: res probed_attempts_append probed_attempts_failed)
  have "sleeps (snd (wait probe max_attempts d)) = replicate (nat (k - 1)) d"
    by (simp add: res sleeps_append sleeps_failed)
  with res probes show ?thesis by simp
qed

theorem wait_stops_at_first_success_witness:
  "(1::int) \<le> 3 \<and> (3::int) \<le> 5 \<and> healthy_from 3 3 = Status 200
   \<and> list_all probe_failed (map (healthy_from 3) [1..3 - 1])
   \<and> wait (healthy_from 3) 5 1
       = (True, [Get_health 1 5, Log_attempt_failed 1, Sleep 1,
                 Get_health 2 5, Log_attempt_failed 2, Sleep 1,
                 Get_health 3 5, Log_healthy 3])
   \<and> probed_attempts (snd (wait (healthy_from 3) 5 1)) = [1, 2, 3]
   \<and> sleeps (snd (wait (healthy_from 3) 5 1)) = [1, 1]"
proof -
  have h3: "healthy_from 3 3 = Status 200"
    by (simp add: healthy_from_def)
  have h4: "list_all probe_failed (map (healthy_from 3) [1..3 - 1])"
    by (simp add: healthy_from_def probe_failed_def)
  show ?thesis
    using wait_stops_at_first_success [of 3 5 "healthy_from 3" 1, OF _ _ h3 h4] h3 h4
    by (simp add: failed_attempt_def healthy_from_def HEALTH_CLIENT_TIMEOUT_def
          numeral_2_eq_2)
qed

text \<open>
  C2 as stated fails on the code at two inputs. With \<open>max_attempts = -1\<close> the range is
  empty: no probe is made, and the count \<open>0\<close> is not \<open>max_attempts\<close>. With one attempt
  answered by status 503 the attempt is made but nothing records it: the warning is logged
  in the \<open>except httpx.RequestError\<close> branch only.
\<close>

theorem wait_all_fail_counterexample:
  "list_all probe_failed (map always_down [1..- 1])
   \<and> fst (wait always_down (- 1) DEFAULT_DELAY_SECONDS) = False
   \<and> int (length (probed_attempts (snd (wait always_down (- 1) DEFAULT_DELAY_SECONDS)))) \<noteq> - 1
   \<and> list_all probe_failed (map always_503 [1..1])
   \<and> fst (wait always_503 1 DEFAULT_DELAY_SECONDS) = False
   \<and> probed_attempts (snd (wait always_503 1 DEFAULT_DELAY_SECONDS)) = [1]
   \<and> int (length (logged_failures (snd (wait always_503 1 DEFAULT_DELAY_SECONDS)))) \<noteq> 1"
  by (simp add: wait_def always_down_def always_503_def probe_failed_def)

text \<open>
  C2, amended. For every \<open>max_attempts\<close>, if every probe of the attempts \<open>1..max_attempts\<close>
  fails (a status other than 200, or a request error), \<open>_wait\<close> returns \<open>False\<close>; the
  attempts probed are exactly \<open>1, 2, ..., max_attempts\<close>, so their number is
  \<open>max 0 max_attempts\<close>; each is followed by one sleep of \<open>delay_seconds\<close>; the warning
  log holds exactly the attempts that failed with a request error; and the trace ends with
  the error log line.
\<close>

theorem wait_all_fail:
  assumes "list_all probe_failed (map probe [1..max_attempts])"
  shows "wait probe max_attempts d
           = (False, concat (map (failed_attempt probe d) [1..max_attempts])
                       @ [Log_not_recovered max_attempts])
         \<and> probed_attempts (snd (wait probe max_attempts d)) = [1..max_attempts]
         \<and> int (length (probed_attempts (snd (wait probe max_attempts d)))) = max 0 max_attempts
         \<and> sleeps (snd (wait probe max_attempts d)) = replicate (nat max_attempts) d
         \<and> logged_failures (snd (wait probe max_attempts d))
             = filter (\<lambda>a. probe a = RequestError) [1..max_attempts]"
proof -
  have "list_all (\<lambda>a. probe a \<noteq> Status 200) [1..max_attempts]"
    using assms by (simp add: list_all_probe_failed)
  then have run: "wait_attempts probe d [1..max_attempts]
      = (None, concat (map (failed_attempt probe d) [1..max_attempts]))"
    by (rule wait_attempts_all_fail)
  have res: "wait probe max_attempts d
      = (False, concat (map (failed_attempt probe d) [1..max_attempts])
                  @ [Log_not_recovered max_attempts])"
    by (simp add: wait_def run)
  have probes: "probed_attempts (snd (wait probe max_attempts d)) = [1..max_attempts]"
    by (simp add: res probed_attempts_append probed_attempts_failed)
  have count: "int (length (probed_attempts (snd (wait probe max_attempts d))))
      = max 0 max_attempts"
    by (simp add: probes)
  have sl: "sleeps (snd (wait probe max_attempts d)) = replicate (nat max_attempts) d"
    by (simp add: res sleeps_append sleeps_failed)
  have lg: "logged_failures (snd (wait probe max_attempts d))
      = filter (\<lambda>a. probe a = RequestError) [1..max_attempts]"
    by (simp add: res logged_failures_append logged_failures_failed)
  from res probes count sl lg show ?thesis by simp
qed

theorem wait_all_fail_witness:
  "list_all probe_failed (map flaky [1..3])
   \<and> wait flaky 3 1
       = (False, [Get_health 1 5, Log_attempt_failed 1, Sleep 1,
                  Get_health 2 5, Sleep 1,
                  Get_health 3 5, Log_attempt_failed 3, Sleep 1,
                  Log_not_recovered 3])
   \<and> probed_attempts (snd (wait flaky 3 1)) = [1, 2, 3]
   \<and> sleeps (snd (wait flaky 3 1)) = [1, 1, 1]
   \<and> logged_failures (snd (wait flaky 3 1)) = [1, 3]"
proof -
  have h: "list_all probe_failed (map flaky [1..3])"
    by (simp add: flaky_def probe_failed_def)
  show ?thesis
    using wait_all_fail [of flaky 3 1, OF h] h
    by (simp add: failed_attempt_def flaky_def HEALTH_CLIENT_TIMEOUT_def numeral_3_eq_3)
qed

text \<open>
  C3 as stated fails on the code: with the default delay of one second every probe still
  runs under the client's five-second timeout.
\<close>

theorem timeout_below_delay_counterexample:
  "probe_timeouts (snd (wait always_down DEFAULT_MAX_ATTEMPTS DEFAULT_DELAY_SECONDS)) \<noteq> []
   \<and> \<not> timeouts_below DEFAULT_DELAY_SECONDS
         (snd (wait always_down DEFAULT_MAX_ATTEMPTS DEFAULT_DELAY_SECONDS))"
  by (simp add: wait_def always_down_def timeouts_below_def DEFAULT_MAX_ATTEMPTS_def
        DEFAULT_DELAY_SECONDS_def HEALTH_CLIENT_TIMEOUT_def)

text \<open>
  C3, amended. Every probe of every call uses the same per-request timeout, the constant
  5.0 of the client, whatever \<open>delay_seconds\<close> is. So the timeouts of a call that probes at
  all (\<open>max_attempts \<ge> 1\<close>) are strictly below the delay exactly when the delay exceeds 5.0;
  for the default delay of 1.0 they are not.
\<close>

theorem probe_timeout_is_constant:
  "probe_timeouts (snd (wait probe max_attempts d))
     = replicate (length (probed_attempts (snd (wait probe max_attempts d)))) 5
   \<and> (timeouts_below d (snd (wait probe max_attempts d)) \<longleftrightarrow> max_attempts < 1 \<or> 5 < d)
   \<and> \<not> HEALTH_CLIENT_TIMEOUT < DEFAULT_DELAY_SECONDS"
proof -
  let ?tr = "snd (wait probe max_attempts d)"
  have t: "probe_timeouts ?tr = replicate (length (probed_attempts ?tr)) 5"
    using wait_probe_timeouts [of probe max_attempts d]
    by (simp add: HEALTH_CLIENT_TIMEOUT_def)
  have "timeouts_below d ?tr \<longleftrightarrow> probed_attempts ?tr = [] \<or> 5 < d"
    unfolding timeouts_below_def t by (auto simp: list_all_iff)
  then have b: "timeouts_below d ?tr \<longleftrightarrow> max_attempts < 1 \<or> 5 < d"
    by (simp add: wait_probes_nonempty)
  have "\<not> HEALTH_CLIENT_TIMEOUT < DEFAULT_DELAY_SECONDS"
    by (simp add: HEALTH_CLIENT_TIMEOUT_def DEFAULT_DELAY_SECONDS_def)
  with t b show ?thesis by simp
qed

theorem probe_timeout_is_constant_witness:
  "probe_timeouts (snd (wait flaky 3 6)) = [5, 5, 5]
   \<and> timeouts_below 6 (snd (wait flaky 3 6))
   \<and> \<not> timeouts_below 1 (snd (wait flaky 3 1))"
  using probe_timeout_is_constant [of flaky 3 6] probe_timeout_is_constant [of flaky 3 1]
  by (simp add: wait_def flaky_def numeral_3_eq_3)

section \<open>Properties of the users service and the state reset\<close>

subsection \<open>Lemmas on the service and the delete loop\<close>

lemma delete_user_rows:
  "users (snd (delete_user i db)) = filter (\<lambda>r. user_id r \<noteq> i) (users db)"
proof (cases "find (\<lambda>u. user_id u = i) (users db)")
  case None
  then have "\<forall>u \<in> set (users db). user_id u \<noteq> i"
    by (simp add: find_None_iff)
  then have "filter (\<lambda>r. user_id r \<noteq> i) (users db) = users db"
    by (simp add: filter_id_conv)
  with None show ?thesis by (simp add: delete_user_def)
next
  case (Some u)
  then show ?thesis by (simp add: delete_user_def)
qed

lemma delete_user_seq: "users_id_seq (snd (delete_user i db)) = users_id_seq db"
  by (cases "find (\<lambda>u. user_id u = i) (users db)") (simp_all add: delete_user_def)

lemma delete_user_store:
  "snd (delete_user i db) = db\<lparr>users := filter (\<lambda>r. user_id r \<noteq> i) (users db)\<rparr>"
  by (rule database.equality) (simp_all add: delete_user_rows delete_user_seq)

lemma client_delete_unfold:
  "client_delete net i w =
     (case net (length (sent w)) (Delete_user i) of
        Unreachable \<Rightarrow> (Inl Request_error, w\<lparr>sent := sent w @ [Delete_user i]\<rparr>)
      | Server_error \<Rightarrow> (Inr 500, w\<lparr>sent := sent w @ [Delete_user i]\<rparr>)
      | Foreign body \<Rightarrow> (Inr 200, w\<lparr>sent := sent w @ [Delete_user i]\<rparr>)
      | Delivered \<Rightarrow>
          (Inr (fst (fst (delete_user i (service w)))),
           w\<lparr>sent := sent w @ [Delete_user i], service := snd (delete_user i (service w))\<rparr>))"
  by (cases "delete_user i (service w)")
     (auto simp: client_delete_def Let_def split: fault.split)

lemma after_delete_unfold:
  "after_delete net i w =
     (case net (length (sent w)) (Delete_user i) of
        Unreachable \<Rightarrow>
          w\<lparr>sent := sent w @ [Delete_user i],
            warnings := warnings w @ [Failed_to_delete i Request_error]\<rparr>
      | Server_error \<Rightarrow> w\<lparr>sent := sent w @ [Delete_user i]\<rparr>
      | Foreign body \<Rightarrow> w\<lparr>sent := sent w @ [Delete_user i]\<rparr>
      | Delivered \<Rightarrow>
          w\<lparr>sent := sent w @ [Delete_user i], service := snd (delete_user i (service w))\<rparr>)"
  by (simp add: after_delete_def client_delete_unfold split: fault.split)

lemma after_delete_sent: "sent (after_delete net i w) = sent w @ [Delete_user i]"
  by (simp add: after_delete_unfold split: fault.split)

lemma after_delete_service:
  "service (after_delete net i w)
     = (if net (length (sent w)) (Delete_user i) = Delivered
        then (service w)\<lparr>users := filter (\<lambda>r. user_id r \<noteq> i) (users (service w))\<rparr>
        else service w)"
  by (simp add: after_delete_unfold delete_user_store split: fault.split)

lemma delete_each_Object:
  "delete_each net (Object u # rest) w = delete_each net rest (loop_pass net u w)"
  by (simp add: loop_pass_def after_delete_def client_delete_unfold
        split: option.split fault.split)

lemma truthy_ids_Cons: "truthy_ids (u # us) = truthy_ids [u] @ truthy_ids us"
  by (simp split: option.split)

lemma loop_pass_sent: "sent (loop_pass net u w) = sent w @ map Delete_user (truthy_ids [u])"
  by (simp add: loop_pass_def after_delete_sent split: option.split)

lemma loop_pass_keeps_zero:
  "filter (\<lambda>r. user_id r = 0) (users (service (loop_pass net u w)))
     = filter (\<lambda>r. user_id r = 0) (users (service w))"
  by (auto simp: loop_pass_def after_delete_service split: option.split intro: filter_cong)


lemma loop_pass_stable:
  assumes "net (length (sent w)) = net 0"
  shows "service (loop_pass net u w)
           = (service w)\<lparr>users :=
                filter (\<lambda>r. user_id r \<notin> set (doomed net [Object u])) (users (service w))\<rparr>"
  using assms
  by (simp add: loop_pass_def after_delete_service doomed_def split: option.split)

lemma doomed_Object: "doomed net (Object u # rest) = doomed net [Object u] @ doomed net rest"
  using truthy_ids_Cons [of u "leading_objects rest"] by (simp add: doomed_def)

lemma delete_each_raised:
  "raised (delete_each net users_json w)
     = (if all_objects users_json then None else Some AttributeError)"
proof (induction users_json arbitrary: w)
  case Nil
  show ?case by (simp add: raised_def)
next
  case (Cons a rest)
  show ?case
  proof (cases a)
    case (Object u)
    then show ?thesis
      using Cons.IH [of "loop_pass net u w"] by (simp only: delete_each_Object all_objects.simps)
  next
    case Not_object
    then show ?thesis by (simp add: raised_def)
  qed
qed

lemma delete_each_requests:
  "requests_after (delete_each net users_json w)
     = sent w @ map Delete_user (truthy_ids (leading_objects users_json))"
proof (induction users_json arbitrary: w)
  case Nil
  show ?case by (simp add: requests_after_def)
next
  case (Cons a rest)
  show ?case
  proof (cases a)
    case (Object u)
    have "truthy_ids (leading_objects (Object u # rest))
        = truthy_ids [u] @ truthy_ids (leading_objects rest)"
      using truthy_ids_Cons [of u "leading_objects rest"] by simp
    then show ?thesis
      using Object Cons.IH [of "loop_pass net u w"]
      by (simp only: delete_each_Object loop_pass_sent map_append append_assoc)
  next
    case Not_object
    then show ?thesis by (simp add: requests_after_def)
  qed
qed

lemma delete_each_keeps_zero:
  "filter (\<lambda>r. user_id r = 0) (rows_after (delete_each net users_json w))
     = filter (\<lambda>r. user_id r = 0) (users (service w))"
proof (induction users_json arbitrary: w)
  case Nil
  show ?case by (simp add: rows_after_def)
next
  case (Cons a rest)
  show ?case
  proof (cases a)
    case (Object u)
    then show ?thesis
      using Cons.IH [of "loop_pass net u w"]
      by (simp only: delete_each_Object loop_pass_keeps_zero)
  next
    case Not_object
    then show ?thesis by (simp add: rows_after_def)
  qed
qed


lemma delete_each_stable:
  assumes stable: "\<forall>k. net k = net 0"
  shows "store_after (delete_each net users_json w)
           = (service w)\<lparr>users :=
                filter (\<lambda>r. user_id r \<notin> set (doomed net users_json)) (users (service w))\<rparr>"
proof (induction users_json arbitrary: w)
  case Nil
  show ?case by (simp add: store_after_def doomed_def)
next
  case (Cons a rest)
  show ?case
  proof (cases a)
    case (Object u)
    have n: "net (length (sent w)) = net 0"
      using spec [OF stable, of "length (sent w)"] .
    have p: "service (loop_pass net u w)
        = (service w)\<lparr>users :=
             filter (\<lambda>r. user_id r \<notin> set (doomed net [Object u])) (users (service w))\<rparr>"
      using n by (rule loop_pass_stable)
    have "store_after (delete_each net (Object u # rest) w)
        = store_after (delete_each net rest (loop_pass net u w))"
      by (simp only: delete_each_Object)
    also have "\<dots> = (service (loop_pass net u w))\<lparr>users :=
        filter (\<lambda>r. user_id r \<notin> set (doomed net rest))
          (users (service (loop_pass net u w)))\<rparr>"
      by (rule Cons.IH)
    also have "\<dots> = (service w)\<lparr>users :=
        filter (\<lambda>r. user_id r \<notin> set (doomed net (Object u # rest))) (users (service w))\<rparr>"
      unfolding p doomed_Object [of net u rest] by (simp add: conj_commute)
    finally show ?thesis using Object by simp
  next
    case Not_object
    then show ?thesis by (simp add: store_after_def doomed_def)
  qed
qed

lemma leading_objects_listing: "leading_objects (listing rows) = map to_json rows"
  by (induction rows) (simp_all add: listing_def)

lemma all_objects_listing: "all_objects (listing rows)"
  by (induction rows) (simp_all add: listing_def)

lemma truthy_ids_to_json:
  "truthy_ids (map to_json rows) = filter (\<lambda>i. i \<noteq> 0) (map user_id rows)"
  by (induction rows) (simp_all add: to_json_def)

lemma truthy_ids_filter:
  "truthy_ids us = filter (\<lambda>i. i \<noteq> 0) (List.map_filter id_field us)"
  by (induction us) (simp_all split: option.split)

lemma doomed_listing:
  "filter (\<lambda>r. user_id r \<notin> set (doomed net (listing rows))) rows = filter (survives net) rows"
proof -
  have "\<And>r. r \<in> set rows \<Longrightarrow>
      (user_id r \<notin> set (doomed net (listing rows))) = survives net r"
    by (auto simp: doomed_def survives_def leading_objects_listing truthy_ids_to_json)
  then show ?thesis by (rule filter_cong [OF refl])
qed

lemma delete_all_users_unfold:
  "delete_all_users net w =
     (case net (length (sent w)) Get_users of
        Delivered \<Rightarrow>
          delete_each net (listing (users (service w))) (w\<lparr>sent := sent w @ [Get_users]\<rparr>)
      | Unreachable \<Rightarrow>
          (None, w\<lparr>sent := sent w @ [Get_users],
                   warnings := warnings w @ [Unable_to_fetch Request_error]\<rparr>)
      | Server_error \<Rightarrow>
          (None, w\<lparr>sent := sent w @ [Get_users],
                   warnings := warnings w @ [Unable_to_fetch HTTP_status_error]\<rparr>)
      | Foreign body \<Rightarrow>
          (case body of
             Not_json \<Rightarrow> (Some JSONDecodeError, w\<lparr>sent := sent w @ [Get_users]\<rparr>)
           | Not_iterable \<Rightarrow> (Some TypeError, w\<lparr>sent := sent w @ [Get_users]\<rparr>)
           | Items users_json \<Rightarrow>
               delete_each net users_json (w\<lparr>sent := sent w @ [Get_users]\<rparr>)))"
  by (simp add: delete_all_users_def client_get_users_def list_users_def raise_for_status_def
        Let_def split: fault.split json_body.split)

lemma delete_all_users_raised:
  "raised (delete_all_users net w) = None \<longleftrightarrow> readable (net (length (sent w)) Get_users)"
proof (cases "net (length (sent w)) Get_users")
  case Delivered
  then show ?thesis
    by (simp add: delete_all_users_unfold delete_each_raised all_objects_listing)
next
  case Unreachable
  then show ?thesis by (simp add: delete_all_users_unfold raised_def)
next
  case Server_error
  then show ?thesis by (simp add: delete_all_users_unfold raised_def)
next
  case (Foreign body)
  show ?thesis
  proof (cases body)
    case (Items users_json)
    then show ?thesis
      using Foreign by (simp add: delete_all_users_unfold delete_each_raised)
  qed (simp_all add: Foreign delete_all_users_unfold raised_def)
qed

lemma delete_all_users_stable:
  assumes stable: "\<forall>k. net k = net 0"
  shows "store_after (delete_all_users net w) = reset_store net (service w)"
proof -
  have n: "net (length (sent w)) Get_users = net 0 Get_users"
    using spec [OF stable, of "length (sent w)"] by simp
  show ?thesis
  proof (cases "net 0 Get_users")
    case Delivered
    then show ?thesis
      using n delete_each_stable [where net = net, OF stable,
                of "listing (users (service w))" "w\<lparr>sent := sent w @ [Get_users]\<rparr>"]
      by (simp add: delete_all_users_unfold reset_store_def doomed_listing)
  next
    case Unreachable
    then show ?thesis
      using n by (simp add: delete_all_users_unfold reset_store_def store_after_def)
  next
    case Server_error
    then show ?thesis
      using n by (simp add: delete_all_users_unfold reset_store_def store_after_def)
  next
    case (Foreign body)
    show ?thesis
    proof (cases body)
      case Not_json
      then show ?thesis
        using n Foreign by (simp add: delete_all_users_unfold reset_store_def store_after_def)
    next
      case Not_iterable
      then show ?thesis
        using n Foreign by (simp add: delete_all_users_unfold reset_store_def store_after_def)
    next
      case (Items users_json)
      then show ?thesis
        using n Foreign delete_each_stable [where net = net, OF stable,
                of users_json "w\<lparr>sent := sent w @ [Get_users]\<rparr>"]
        by (simp add: delete_all_users_unfold reset_store_def)
    qed
  qed
qed



lemma delete_all_users_keeps_zero:
  "filter (\<lambda>r. user_id r = 0) (rows_after (delete_all_users net w))
     = filter (\<lambda>r. user_id r = 0) (users (service w))"
proof (cases "net (length (sent w)) Get_users")
  case Delivered
  then show ?thesis
    using delete_each_keeps_zero [of net "listing (users (service w))"
            "w\<lparr>sent := sent w @ [Get_users]\<rparr>"]
    by (simp add: delete_all_users_unfold)
next
  case Unreachable
  then show ?thesis by (simp add: delete_all_users_unfold rows_after_def)
next
  case Server_error
  then show ?thesis by (simp add: delete_all_users_unfold rows_after_def)
next
  case (Foreign body)
  show ?thesis
  proof (cases body)
    case (Items users_json)
    then show ?thesis
      using Foreign delete_each_keeps_zero [of net users_json
              "w\<lparr>sent := sent w @ [Get_users]\<rparr>"]
      by (simp add: delete_all_users_unfold)
  qed (simp_all add: Foreign delete_all_users_unfold rows_after_def)
qed


lemma delete_all_users_requests:
  assumes "net (length (sent w)) Get_users = Delivered"
  shows "requests_after (delete_all_users net w)
           = sent w @ Get_users
               # map Delete_user (filter (\<lambda>i. i \<noteq> 0) (map user_id (users (service w))))"
  using assms delete_each_requests [of net "listing (users (service w))"
          "w\<lparr>sent := sent w @ [Get_users]\<rparr>"]
  by (simp add: delete_all_users_unfold leading_objects_listing truthy_ids_to_json)

lemma all_objects_map_Object: "all_objects (map Object us)"
  by (induction us) simp_all

lemma leading_objects_map_Object: "leading_objects (map Object us) = us"
  by (induction us) simp_all


subsection \<open>The claims on the users service and the state reset\<close>

text \<open>
  C4. Starting from a store with no users, a create answers 201 with the created row; a
  second create with the same email answers 400 and leaves the rows of the table as the
  first create left them; and listing the users then answers 200 with exactly one entity,
  the row of the first create.
\<close>

theorem duplicate_create_rejected:
  assumes "users db = []" and "email second = email first"
  shows "fst (create_user first db) = (201, User_body (created first db))
       \<and> fst (create_user second (snd (create_user first db)))
           = (400, Detail ''Email already registered'')
       \<and> users (snd (create_user second (snd (create_user first db))))
           = users (snd (create_user first db))
       \<and> list_users (snd (create_user second (snd (create_user first db))))
           = (200, [created first db])"
  using assms by (simp add: create_user_def commit_user_def list_users_def created_def Let_def)

theorem duplicate_create_rejected_witness:
  "users empty_db = [] \<and> email duplicate_user = email first_user
   \<and> fst (create_user first_user empty_db)
       = (201, User_body \<lparr>name = ''User One'', email = ''user1@example.com'',
                           is_active = True, user_id = 1\<rparr>)
   \<and> fst (create_user duplicate_user (snd (create_user first_user empty_db)))
       = (400, Detail ''Email already registered'')
   \<and> list_users (snd (create_user duplicate_user (snd (create_user first_user empty_db))))
       = (200, [\<lparr>name = ''User One'', email = ''user1@example.com'',
                   is_active = True, user_id = 1\<rparr>])"
proof -
  have h1: "users empty_db = []" by (simp add: empty_db_def)
  have h2: "email duplicate_user = email first_user"
    by (simp add: duplicate_user_def first_user_def)
  have c: "created first_user empty_db
      = \<lparr>name = ''User One'', email = ''user1@example.com'', is_active = True, user_id = 1\<rparr>"
    by (simp add: created_def first_user_def empty_db_def)
  show ?thesis
    using duplicate_create_rejected [OF h1 h2] h1 h2 by (simp add: c)
qed

text \<open>
  C6 as stated fails on the code: with one user in the store and a service that cannot
  be reached, the GET raises, \<open>_delete_all_users\<close> logs and returns, and the user is still
  there when the fixture hands over to the test.
\<close>

theorem reset_counterexample:
  "users (service (fresh_world [alice])) = [alice]
   \<and> raised (clean_database_setup service_down (fresh_world [alice])) = None
   \<and> rows_after (clean_database_setup service_down (fresh_world [alice])) = [alice]"
  by (simp add: clean_database_setup_def delete_all_users_unfold service_down_def
        fresh_world_def rows_after_def raised_def)

text \<open>
  C6, amended. For every initial state of the store in which no user has id 0, if every
  request of the reset is delivered to and answered by the service, the pre-test reset does
  not raise and the store holds no user when it has completed. When the list request fails,
  by a transport error or by an error status, the reset logs one warning for it, sends
  nothing else and returns, with the store as it was.
\<close>

theorem reset_empties_store:
  assumes "\<forall>k req. net k req = Delivered"
    and "list_all (\<lambda>u. user_id u \<noteq> 0) (users (service w))"
  shows "raised (clean_database_setup net w) = None
       \<and> rows_after (clean_database_setup net w) = []
       \<and> (other (length (sent w)) Get_users = Unreachable \<longrightarrow>
            clean_database_setup other w
              = (None, w\<lparr>sent := sent w @ [Get_users],
                          warnings := warnings w @ [Unable_to_fetch Request_error]\<rparr>))
       \<and> (other (length (sent w)) Get_users = Server_error \<longrightarrow>
            clean_database_setup other w
              = (None, w\<lparr>sent := sent w @ [Get_users],
                          warnings := warnings w @ [Unable_to_fetch HTTP_status_error]\<rparr>))"
proof -
  have stable: "\<forall>k. net k = net 0"
    using assms(1) by (simp add: fun_eq_iff)
  have r: "raised (clean_database_setup net w) = None"
    using assms(1) by (simp add: clean_database_setup_def delete_all_users_raised)
  have "filter (survives net) (users (service w)) = []"
    using assms by (simp add: survives_def list_all_iff)
  then have "reset_store net (service w) = (service w)\<lparr>users := []\<rparr>"
    using assms(1) by (simp add: reset_store_def)
  then have "store_after (delete_all_users net w) = (service w)\<lparr>users := []\<rparr>"
    using delete_all_users_stable [where net = net and w = w, OF stable] by simp
  then have e: "rows_after (clean_database_setup net w) = []"
    by (simp add: clean_database_setup_def rows_after_def store_after_def)
  have u: "other (length (sent w)) Get_users = Unreachable \<longrightarrow>
      clean_database_setup other w
        = (None, w\<lparr>sent := sent w @ [Get_users],
                    warnings := warnings w @ [Unable_to_fetch Request_error]\<rparr>)"
    by (simp add: clean_database_setup_def delete_all_users_unfold)
  have s: "other (length (sent w)) Get_users = Server_error \<longrightarrow>
      clean_database_setup other w
        = (None, w\<lparr>sent := sent w @ [Get_users],
                    warnings := warnings w @ [Unable_to_fetch HTTP_status_error]\<rparr>)"
    by (simp add: clean_database_setup_def delete_all_users_unfold)
  from r e u s show ?thesis by simp
qed

theorem reset_empties_store_witness:
  "(\<forall>k req. reliable k req = Delivered)
   \<and> list_all (\<lambda>u. user_id u \<noteq> 0) (users (service (fresh_world [alice, bob])))
   \<and> raised (clean_database_setup reliable (fresh_world [alice, bob])) = None
   \<and> rows_after (clean_database_setup reliable (fresh_world [alice, bob])) = []
   \<and> rows_after (clean_database_setup service_down (fresh_world [alice, bob])) = [alice, bob]
   \<and> warnings_after (clean_database_setup service_down (fresh_world [alice, bob]))
       = [Unable_to_fetch Request_error]
   \<and> requests_after (clean_database_setup service_down (fresh_world [alice, bob])) = [Get_users]
   \<and> warnings_after (clean_database_setup service_failing (fresh_world [alice, bob]))
       = [Unable_to_fetch HTTP_status_error]"
proof -
  have h1: "\<forall>k req. reliable k req = Delivered" by (simp add: reliable_def)
  have h2: "list_all (\<lambda>u. user_id u \<noteq> 0) (users (service (fresh_world [alice, bob])))"
    by (simp add: fresh_world_def alice_def bob_def)
  have d: "service_down (length (sent (fresh_world [alice, bob]))) Get_users = Unreachable"
    by (simp add: service_down_def)
  have f: "service_failing (length (sent (fresh_world [alice, bob]))) Get_users = Server_error"
    by (simp add: service_failing_def)
  have a: "raised (clean_database_setup reliable (fresh_world [alice, bob])) = None
      \<and> rows_after (clean_database_setup reliable (fresh_world [alice, bob])) = []
      \<and> rows_after (clean_database_setup service_down (fresh_world [alice, bob]))
          = [alice, bob]
      \<and> warnings_after (clean_database_setup service_down (fresh_world [alice, bob]))
          = [Unable_to_fetch Request_error]
      \<and> requests_after (clean_database_setup service_down (fresh_world [alice, bob]))
          = [Get_users]"
    using reset_empties_store [OF h1 h2, of service_down] d
    by (simp add: rows_after_def warnings_after_def requests_after_def fresh_world_def)
  have b: "warnings_after (clean_database_setup service_failing (fresh_world [alice, bob]))
      = [Unable_to_fetch HTTP_status_error]"
    using reset_empties_store [OF h1 h2, of service_failing] f
    by (simp add: warnings_after_def fresh_world_def)
  from h1 h2 a b show ?thesis by (intro conjI) simp_all
qed




text \<open>
  C9. For every list of user objects handed to the loop, the loop does not raise and the
  DELETE requests sent are exactly those for the ids that are present and not 0, in order;
  an entry with a missing id or with id 0 causes no request. Every row of the store whose
  id is 0 is still in the store after the loop, and after the whole reset, under any
  environment. When the list request is answered by the service, the whole reset does not
  raise and sends, after the GET, a DELETE for each stored user whose id is not 0.
\<close>

theorem reset_skips_falsy_ids:
  "raised (delete_each net (map Object us) w) = None
   \<and> requests_after (delete_each net (map Object us) w)
       = sent w @ map Delete_user (filter (\<lambda>i. i \<noteq> 0) (List.map_filter id_field us))
   \<and> filter (\<lambda>r. user_id r = 0) (rows_after (delete_each net (map Object us) w))
       = filter (\<lambda>r. user_id r = 0) (users (service w))
   \<and> filter (\<lambda>r. user_id r = 0) (rows_after (delete_all_users net w))
       = filter (\<lambda>r. user_id r = 0) (users (service w))
   \<and> (net (length (sent w)) Get_users = Delivered \<longrightarrow>
        raised (delete_all_users net w) = None
        \<and> requests_after (delete_all_users net w)
            = sent w @ Get_users
                # map Delete_user (filter (\<lambda>i. i \<noteq> 0) (map user_id (users (service w)))))"
proof -
  have a: "raised (delete_each net (map Object us) w) = None"
    by (simp add: delete_each_raised all_objects_map_Object)
  have b: "requests_after (delete_each net (map Object us) w)
      = sent w @ map Delete_user (filter (\<lambda>i. i \<noteq> 0) (List.map_filter id_field us))"
    using delete_each_requests [of net "map Object us" w]
    by (simp add: leading_objects_map_Object truthy_ids_filter)
  have c: "filter (\<lambda>r. user_id r = 0) (rows_after (delete_each net (map Object us) w))
      = filter (\<lambda>r. user_id r = 0) (users (service w))"
    by (rule delete_each_keeps_zero)
  have d: "filter (\<lambda>r. user_id r = 0) (rows_after (delete_all_users net w))
      = filter (\<lambda>r. user_id r = 0) (users (service w))"
    by (rule delete_all_users_keeps_zero)
  have e: "net (length (sent w)) Get_users = Delivered \<longrightarrow>
      raised (delete_all_users net w) = None
      \<and> requests_after (delete_all_users net w)
          = sent w @ Get_users
              # map Delete_user (filter (\<lambda>i. i \<noteq> 0) (map user_id (users (service w))))"
    using delete_all_users_requests [of net w]
    by (simp add: delete_all_users_raised)
  from a b c d e show ?thesis by simp
qed

theorem reset_skips_falsy_ids_witness:
  "raised (delete_each reliable (map Object listed) (fresh_world [zero, alice, bob])) = None
   \<and> requests_after (delete_each reliable (map Object listed) (fresh_world [zero, alice, bob]))
       = [Delete_user 1, Delete_user 2]
   \<and> rows_after (delete_each reliable (map Object listed) (fresh_world [zero, alice, bob]))
       = [zero]
   \<and> rows_after (delete_all_users reliable (fresh_world [zero, alice, bob])) = [zero]
   \<and> requests_after (delete_all_users reliable (fresh_world [zero, alice, bob]))
       = [Get_users, Delete_user 1, Delete_user 2]"
proof -
  have g: "reliable (length (sent (fresh_world [zero, alice, bob]))) Get_users = Delivered"
    by (simp add: reliable_def)
  have a: "rows_after (delete_each reliable (map Object listed) (fresh_world [zero, alice, bob]))
      = [zero]"
    by (simp add: listed_def reliable_def fresh_world_def rows_after_def alice_def bob_def
          zero_def client_delete_unfold delete_user_def)
  have b: "rows_after (delete_all_users reliable (fresh_world [zero, alice, bob])) = [zero]"
    by (simp add: delete_all_users_unfold to_json_def listing_def reliable_def fresh_world_def
          rows_after_def alice_def bob_def zero_def client_delete_unfold delete_user_def)
  show ?thesis
    using reset_skips_falsy_ids [of reliable listed "fresh_world [zero, alice, bob]"] a b g
    by (simp add: listed_def fresh_world_def List.map_filter_simps alice_def bob_def zero_def)
qed

section \<open>Properties of the metrics module\<close>

lemma record_request_counts:
  assumes "metric ''app_requests_total'' st = Some t"
    and "metric ''app_requests_failed'' st = Some f"
  shows "fst (record_request success st) = None
       \<and> metric ''app_requests_total'' (snd (record_request success st)) = Some (t + 1)
       \<and> metric ''app_requests_failed'' (snd (record_request success st))
           = Some (if success then f else f + 1)"
  using assms
  by (simp add: record_request_def iadd_item_def metric_def update_conv')

lemma record_requests_counts:
  "metric ''app_requests_total'' st = Some t \<Longrightarrow>
   metric ''app_requests_failed'' st = Some f \<Longrightarrow>
   fst (record_requests ss st) = None
   \<and> metric ''app_requests_total'' (snd (record_requests ss st)) = Some (t + real (length ss))
   \<and> metric ''app_requests_failed'' (snd (record_requests ss st))
       = Some (f + real (length (filter Not ss)))"
proof (induction ss arbitrary: st t f)
  case Nil
  then show ?case by simp
next
  case (Cons s ss)
  obtain st1 where st1: "record_request s st = (None, st1)"
    using record_request_counts [OF Cons.prems, of s]
    by (cases "record_request s st") simp
  have t1: "metric ''app_requests_total'' st1 = Some (t + 1)"
    and f1: "metric ''app_requests_failed'' st1 = Some (if s then f else f + 1)"
    using record_request_counts [OF Cons.prems, of s] st1 by simp_all
  show ?case
    using Cons.IH [OF t1 f1] st1 by (simp add: add.assoc)
qed

text \<open>
  C5. After any sequence of \<open>record_request\<close> calls on the freshly loaded module no call
  has raised, the total counter is the number of calls, the failed counter is the number
  of calls with \<open>success = False\<close>, and so the failed counter is at most the total counter.
  The error rate is 0 when the total is 0, and it never raises a division error.
\<close>

theorem failed_le_total:
  "fst (record_requests ss module_loaded) = None
   \<and> metric ''app_requests_total'' (snd (record_requests ss module_loaded))
       = Some (real (length ss))
   \<and> metric ''app_requests_failed'' (snd (record_requests ss module_loaded))
       = Some (real (length (filter Not ss)))
   \<and> the (metric ''app_requests_failed'' (snd (record_requests ss module_loaded)))
       \<le> the (metric ''app_requests_total'' (snd (record_requests ss module_loaded)))
   \<and> error_rate 0 failed_requests = Inr 0
   \<and> error_rate total_requests failed_requests \<noteq> Inl ZeroDivisionError"
proof -
  have t0: "metric ''app_requests_total'' module_loaded = Some 0"
    and f0: "metric ''app_requests_failed'' module_loaded = Some 0"
    by (simp_all add: metric_def module_loaded_def initial_metrics_def)
  have run: "fst (record_requests ss module_loaded) = None
      \<and> metric ''app_requests_total'' (snd (record_requests ss module_loaded))
          = Some (0 + real (length ss))
      \<and> metric ''app_requests_failed'' (snd (record_requests ss module_loaded))
          = Some (0 + real (length (filter Not ss)))"
    using t0 f0 by (rule record_requests_counts)
  have le: "real (length (filter Not ss)) \<le> real (length ss)"
    by simp
  have e: "error_rate 0 failed_requests = Inr 0"
    by (simp add: error_rate_def)
  have z: "error_rate total_requests failed_requests \<noteq> Inl ZeroDivisionError"
    by (simp add: error_rate_def truediv_def)
  from run le e z show ?thesis by simp
qed

theorem failed_le_total_witness:
  "fst (record_requests [True, False, True] module_loaded) = None
   \<and> metric ''app_requests_total'' (snd (record_requests [True, False, True] module_loaded))
       = Some 3
   \<and> metric ''app_requests_failed'' (snd (record_requests [True, False, True] module_loaded))
       = Some 1
   \<and> error_rate 0 0 = Inr 0
   \<and> error_rate 4 1 = Inr 25"
proof -
  have "error_rate 4 1 = Inr 25"
    by (simp add: error_rate_def truediv_def)
  then show ?thesis
    using failed_le_total [of "[True, False, True]" 0 4] by simp
qed

text \<open>
  C10. \<open>get_metrics\<close> returns a reference to a dictionary that is not the module's own,
  leaves the module's metrics as they were, and the dictionary returned has the same items.
  Whatever mutation \<open>f\<close> is then applied through the returned reference, it changes the
  copy only: the module's metrics are unchanged, a later \<open>record_request\<close> raises and
  counts as it would have without the mutation, and a later \<open>get_metrics\<close> returns the
  unmutated metrics.
\<close>

theorem get_metrics_snapshot:
  "fst (get_metrics st) \<noteq> Metrics_global
   \<and> metrics (snd (get_metrics st)) = metrics st
   \<and> deref (snd (get_metrics st)) (fst (get_metrics st)) = Some (metrics st)
   \<and> metrics (mutate (fst (get_metrics st)) f (snd (get_metrics st))) = metrics st
   \<and> deref (mutate (fst (get_metrics st)) f (snd (get_metrics st))) (fst (get_metrics st))
       = Some (f (metrics st))
   \<and> fst (record_request success (mutate (fst (get_metrics st)) f (snd (get_metrics st))))
       = fst (record_request success st)
   \<and> metrics (snd (record_request success
         (mutate (fst (get_metrics st)) f (snd (get_metrics st)))))
       = metrics (snd (record_request success st))
   \<and> deref (snd (get_metrics (mutate (fst (get_metrics st)) f (snd (get_metrics st)))))
         (fst (get_metrics (mutate (fst (get_metrics st)) f (snd (get_metrics st)))))
       = Some (metrics st)"
  by (simp add: get_metrics_def deref_def mutate_def record_request_def nth_append
        split: sum.split)

theorem get_metrics_snapshot_witness:
  "deref (snd (get_metrics module_loaded)) (fst (get_metrics module_loaded))
     = Some initial_metrics
   \<and> deref (mutate (fst (get_metrics module_loaded)) dict_clear (snd (get_metrics module_loaded)))
         (fst (get_metrics module_loaded)) = Some []
   \<and> metrics (mutate (fst (get_metrics module_loaded)) dict_clear (snd (get_metrics module_loaded)))
       = initial_metrics"
  using get_metrics_snapshot [of module_loaded dict_clear True]
  by (simp add: module_loaded_def dict_clear_def)

section \<open>Properties of the Docker helpers\<close>

lemma run_docker_command_unfold:
  "run_docker_command sh command wait_time =
     (case sh command of
        Not_started \<Rightarrow> (Inl OSError, started_events command)
      | Exited_undecodable returncode \<Rightarrow> (Inl UnicodeDecodeError, started_events command)
      | Exited returncode out err \<Rightarrow>
          if returncode \<noteq> 0
          then (Inr False, started_events command @ [failure_log (sh command)])
          else if 0 < wait_time \<and> SLEEP_MAX < wait_time
          then (Inl OverflowError, started_events command)
          else (Inr True, started_events command
                            @ (if 0 < wait_time then [Time_sleep wait_time] else [])))"
  by (simp add: run_docker_command_def subprocess_run_def time_sleep_def started_events_def
        failure_log_def captured_stderr_def Let_def split: completed.split)

lemma run_docker_command_success:
  assumes "decodable (sh command)" and "wait_time \<le> SLEEP_MAX"
  shows "fst (run_docker_command sh command wait_time) = Inr True
           \<longleftrightarrow> exit_code (sh command) = Some 0"
  using assms
  by (cases "sh command")
     (simp_all add: run_docker_command_unfold exit_code_def decodable_def)

lemma run_docker_command_zero:
  assumes "decodable (sh command)" and "wait_time \<le> SLEEP_MAX"
    and "exit_code (sh command) = Some 0"
  shows "run_docker_command sh command wait_time
           = (Inr True, started_events command
                          @ (if 0 < wait_time then [Time_sleep wait_time] else []))"
  using assms
  by (cases "sh command")
     (simp_all add: run_docker_command_unfold exit_code_def decodable_def)

lemma run_docker_command_failure:
  assumes "decodable (sh command)"
    and "exit_code (sh command) = Some returncode" and "returncode \<noteq> 0"
  shows "run_docker_command sh command wait_time
           = (Inr False, started_events command @ [failure_log (sh command)])"
  using assms
  by (cases "sh command")
     (simp_all add: run_docker_command_unfold exit_code_def decodable_def)

text \<open>
  C8. The claim does not hold of the code for a command that exits with a non-zero code
  and whose stderr does not decode: \<open>stop_container\<close> does not return \<open>False\<close> and logs no
  diagnostics. \<open>subprocess.run\<close> raises \<open>UnicodeDecodeError\<close> while it collects the output,
  the \<open>except subprocess.CalledProcessError\<close> does not catch it, and it leaves the call. The
  docstring of \<open>_run_docker_command\<close> promises \<open>True\<close> on success and \<open>False\<close> otherwise.
\<close>

theorem stop_container_undecodable_stderr:
  "exit_code (undecodable_failure [''docker'', ''stop'', ''recovery_fastapi'']) = Some 1
   \<and> stop_container undecodable_failure ''recovery_fastapi''
       = (Inl UnicodeDecodeError,
          [Log_info ''Running docker command: docker stop recovery_fastapi'',
           Run [''docker'', ''stop'', ''recovery_fastapi'']])"
  by (simp add: stop_container_def run_docker_command_def subprocess_run_def
        undecodable_failure_def exit_code_def)

text \<open>
  What the helpers do for every command whose captured output decodes and every wait
  time that \<open>time.sleep\<close> accepts: \<open>_run_docker_command\<close> and the three wrappers return \<open>True\<close>
  exactly when the command ran and exited with code 0, having slept the wait time when it
  is positive; on a non-zero exit code they do not raise, they return \<open>False\<close>, and the last
  thing they did was to log the captured stderr of the command (the text \<open>Unknown error\<close>
  when nothing was captured).
\<close>

theorem docker_lifecycle_result:
  assumes "decodable (sh command)"
    and "decodable (sh [''docker'', ''stop'', container_name])"
    and "decodable (sh [''docker'', ''start'', container_name])"
    and "decodable (sh [''docker'', ''restart'', container_name])"
    and "wait_time \<le> SLEEP_MAX"
  shows "(fst (run_docker_command sh command wait_time) = Inr True
            \<longleftrightarrow> exit_code (sh command) = Some 0)
       \<and> (exit_code (sh command) = Some 0 \<longrightarrow>
            run_docker_command sh command wait_time
              = (Inr True, started_events command
                             @ (if 0 < wait_time then [Time_sleep wait_time] else [])))
       \<and> (exit_code (sh command) = Some returncode \<and> returncode \<noteq> 0 \<longrightarrow>
            run_docker_command sh command wait_time
              = (Inr False, started_events command @ [failure_log (sh command)]))
       \<and> (fst (stop_container sh container_name) = Inr True
            \<longleftrightarrow> exit_code (sh [''docker'', ''stop'', container_name]) = Some 0)
       \<and> (exit_code (sh [''docker'', ''stop'', container_name]) = Some 0 \<longrightarrow>
            stop_container sh container_name
              = (Inr True, started_events [''docker'', ''stop'', container_name]))
       \<and> (exit_code (sh [''docker'', ''stop'', container_name]) = Some returncode
            \<and> returncode \<noteq> 0 \<longrightarrow>
            stop_container sh container_name
              = (Inr False, started_events [''docker'', ''stop'', container_name]
                              @ [failure_log (sh [''docker'', ''stop'', container_name])]))
       \<and> (fst (start_container sh container_name wait_time) = Inr True
            \<longleftrightarrow> exit_code (sh [''docker'', ''start'', container_name]) = Some 0)
       \<and> (exit_code (sh [''docker'', ''start'', container_name]) = Some 0 \<longrightarrow>
            start_container sh container_name wait_time
              = (Inr True, started_events [''docker'', ''start'', container_name]
                             @ (if 0 < wait_time then [Time_sleep wait_time] else [])))
       \<and> (exit_code (sh [''docker'', ''start'', container_name]) = Some returncode
            \<and> returncode \<noteq> 0 \<longrightarrow>
            start_container sh container_name wait_time
              = (Inr False, started_events [''docker'', ''start'', container_name]
                              @ [failure_log (sh [''docker'', ''start'', container_name])]))
       \<and> (fst (restart_container sh container_name wait_time) = Inr True
            \<longleftrightarrow> exit_code (sh [''docker'', ''restart'', container_name]) = Some 0)
       \<and> (exit_code (sh [''docker'', ''restart'', container_name]) = Some 0 \<longrightarrow>
            restart_container sh container_name wait_time
              = (Inr True, started_events [''docker'', ''restart'', container_name]
                             @ (if 0 < wait_time then [Time_sleep wait_time] else [])))
       \<and> (exit_code (sh [''docker'', ''restart'', container_name]) = Some returncode
            \<and> returncode \<noteq> 0 \<longrightarrow>
            restart_container sh container_name wait_time
              = (Inr False, started_events [''docker'', ''restart'', container_name]
                              @ [failure_log (sh [''docker'', ''restart'', container_name])]))"
proof -
  note general = run_docker_command_success run_docker_command_zero run_docker_command_failure
  have z: "(0::int) \<le> SLEEP_MAX" by (simp add: SLEEP_MAX_def)
  have a1: "fst (run_docker_command sh command wait_time) = Inr True
      \<longleftrightarrow> exit_code (sh command) = Some 0"
    by (rule general(1) [where sh = sh and command = command, OF assms(1,5)])
  have a2: "exit_code (sh command) = Some 0 \<longrightarrow>
      run_docker_command sh command wait_time
        = (Inr True, started_events command
                       @ (if 0 < wait_time then [Time_sleep wait_time] else []))"
    using general(2) [where sh = sh and command = command, OF assms(1,5)] by blast
  have a3: "exit_code (sh command) = Some returncode \<and> returncode \<noteq> 0 \<longrightarrow>
      run_docker_command sh command wait_time
        = (Inr False, started_events command @ [failure_log (sh command)])"
    using general(3) [where sh = sh and command = command, OF assms(1)] by blast
  have b1: "fst (stop_container sh container_name) = Inr True
      \<longleftrightarrow> exit_code (sh [''docker'', ''stop'', container_name]) = Some 0"
    unfolding stop_container_def
    by (rule general(1) [where sh = sh and command = "[''docker'', ''stop'', container_name]", OF assms(2) z])
  have b2: "exit_code (sh [''docker'', ''stop'', container_name]) = Some 0 \<longrightarrow>
      stop_container sh container_name
        = (Inr True, started_events [''docker'', ''stop'', container_name])"
    using general(2) [where sh = sh and command = "[''docker'', ''stop'', container_name]", OF assms(2) z]
    by (simp add: stop_container_def)
  have b3: "exit_code (sh [''docker'', ''stop'', container_name]) = Some returncode
      \<and> returncode \<noteq> 0 \<longrightarrow>
      stop_container sh container_name
        = (Inr False, started_events [''docker'', ''stop'', container_name]
                        @ [failure_log (sh [''docker'', ''stop'', container_name])])"
    using general(3) [where sh = sh and command = "[''docker'', ''stop'', container_name]", OF assms(2)]
    by (simp add: stop_container_def)
  have c1: "fst (start_container sh container_name wait_time) = Inr True
      \<longleftrightarrow> exit_code (sh [''docker'', ''start'', container_name]) = Some 0"
    unfolding start_container_def
    by (rule general(1) [where sh = sh and command = "[''docker'', ''start'', container_name]", OF assms(3,5)])
  have c2: "exit_code (sh [''docker'', ''start'', container_name]) = Some 0 \<longrightarrow>
      start_container sh container_name wait_time
        = (Inr True, started_events [''docker'', ''start'', container_name]
                       @ (if 0 < wait_time then [Time_sleep wait_time] else []))"
    using general(2) [where sh = sh and command = "[''docker'', ''start'', container_name]", OF assms(3,5)]
    by (simp add: start_container_def)
  have c3: "exit_code (sh [''docker'', ''start'', container_name]) = Some returncode
      \<and> returncode \<noteq> 0 \<longrightarrow>
      start_container sh container_name wait_time
        = (Inr False, started_events [''docker'', ''start'', container_name]
                        @ [failure_log (sh [''docker'', ''start'', container_name])])"
    using general(3) [where sh = sh and command = "[''docker'', ''start'', container_name]", OF assms(3)]
    by (simp add: start_container_def)
  have d1: "fst (restart_container sh container_name wait_time) = Inr True
      \<longleftrightarrow> exit_code (sh [''docker'', ''restart'', container_name]) = Some 0"
    unfolding restart_container_def
    by (rule general(1) [where sh = sh and command = "[''docker'', ''restart'', container_name]", OF assms(4,5)])
  have d2: "exit_code (sh [''docker'', ''restart'', container_name]) = Some 0 \<longrightarrow>
      restart_container sh container_name wait_time
        = (Inr True, started_events [''docker'', ''restart'', container_name]
                       @ (if 0 < wait_time then [Time_sleep wait_time] else []))"
    using general(2) [where sh = sh and command = "[''docker'', ''restart'', container_name]", OF assms(4,5)]
    by (simp add: restart_container_def)
  have d3: "exit_code (sh [''docker'', ''restart'', container_name]) = Some returncode
      \<and> returncode \<noteq> 0 \<longrightarrow>
      restart_container sh container_name wait_time
        = (Inr False, started_events [''docker'', ''restart'', container_name]
                        @ [failure_log (sh [''docker'', ''restart'', container_name])])"
    using general(3) [where sh = sh and command = "[''docker'', ''restart'', container_name]", OF assms(4)]
    by (simp add: restart_container_def)
  show ?thesis
    by (intro conjI) (rule a1 a2 a3 b1 b2 b3 c1 c2 c3 d1 d2 d3)+
qed

theorem docker_lifecycle_result_witness:
  "decodable (one_container [''docker'', ''stop'', ''recovery_fastapi''])
   \<and> decodable (one_container [''docker'', ''start'', ''recovery_fastapi''])
   \<and> decodable (one_container [''docker'', ''restart'', ''recovery_fastapi''])
   \<and> DOCKER_WAIT_SECONDS \<le> SLEEP_MAX
   \<and> stop_container one_container ''recovery_fastapi''
       = (Inr True, [Log_info ''Running docker command: docker stop recovery_fastapi'',
                     Run [''docker'', ''stop'', ''recovery_fastapi'']])
   \<and> start_container one_container ''recovery_fastapi'' DOCKER_WAIT_SECONDS
       = (Inr False,
          [Log_info ''Running docker command: docker start recovery_fastapi'',
           Run [''docker'', ''start'', ''recovery_fastapi''],
           Log_error ''Docker command failed: Error response from daemon: No such container''])"
proof -
  have h1: "decodable (one_container [''docker'', ''stop'', ''recovery_fastapi''])"
    and h2: "decodable (one_container [''docker'', ''start'', ''recovery_fastapi''])"
    and h3: "decodable (one_container [''docker'', ''restart'', ''recovery_fastapi''])"
    by (simp_all add: decodable_def one_container_def)
  have h4: "DOCKER_WAIT_SECONDS \<le> SLEEP_MAX"
    by (simp add: DOCKER_WAIT_SECONDS_def SLEEP_MAX_def)
  have e0: "exit_code (one_container [''docker'', ''stop'', ''recovery_fastapi'']) = Some 0"
    and e1: "exit_code (one_container [''docker'', ''start'', ''recovery_fastapi'']) = Some 1"
    by (simp_all add: exit_code_def one_container_def)
  have l: "failure_log (one_container [''docker'', ''start'', ''recovery_fastapi''])
      = Log_error ''Docker command failed: Error response from daemon: No such container''"
    by (simp add: failure_log_def captured_stderr_def one_container_def)
  have r: "stop_container one_container ''recovery_fastapi''
        = (Inr True, [Log_info ''Running docker command: docker stop recovery_fastapi'',
                      Run [''docker'', ''stop'', ''recovery_fastapi'']])
      \<and> start_container one_container ''recovery_fastapi'' DOCKER_WAIT_SECONDS
        = (Inr False,
           [Log_info ''Running docker command: docker start recovery_fastapi'',
            Run [''docker'', ''start'', ''recovery_fastapi''],
            Log_error ''Docker command failed: Error response from daemon: No such container''])"
    using docker_lifecycle_result [where sh = one_container
            and command = "[''docker'', ''stop'', ''recovery_fastapi'']"
            and container_name = "''recovery_fastapi''" and wait_time = DOCKER_WAIT_SECONDS
            and returncode = 1, OF h1 h1 h2 h3 h4] e0 e1 l
    by (simp add: started_events_def)
  from h1 h2 h3 h4 r show ?thesis by (intro conjI) simp_all
qed

end
